theory Spec2Isabelle
  imports Complex_Main
begin

section \<open>Python values\<close>

text \<open>
  A Python \<open>str\<close> is a sequence of Unicode code points, a \<open>bytes\<close> object a sequence of
  8-bit characters. \<open>lit\<close> turns an ASCII literal of the source into code points.
\<close>

type_synonym pystr = "nat list"

definition lit :: "string \<Rightarrow> pystr" where
  "lit s = map of_char s"

text \<open>
  The values an argument of the logger takes in this development: \<open>None\<close>, a \<open>str\<close>,
  a \<open>bytes\<close> object, an \<open>int\<close> and a \<open>bool\<close>.
\<close>

datatype pyval = PNone | PStr pystr | PBytes string | PInt int | PBool bool

datatype py_error =
  KeyError | IndexError | AttributeError | UnicodeDecodeError | OverflowError | MemoryError

subsection \<open>\<open>str(v)\<close>\<close>

fun digits :: "nat \<Rightarrow> pystr" where
  "digits n = (if n < 10 then [48 + n] else digits (n div 10) @ [48 + n mod 10])"

definition str_int :: "int \<Rightarrow> pystr" where
  "str_int i = (if i < 0 then 45 # digits (nat (- i)) else digits (nat i))"

definition hex_digit :: "nat \<Rightarrow> nat" where
  "hex_digit d = (if d < 10 then 48 + d else 87 + d)"

text \<open>
  One byte of \<open>repr(bytes)\<close>: the quote in use and the backslash are escaped, tab, newline
  and carriage return have their letters, other bytes outside the printable ASCII range are
  written \<open>\xhh\<close>.
\<close>

definition repr_byte :: "nat \<Rightarrow> nat \<Rightarrow> pystr" where
  "repr_byte quote c =
     (if c = quote \<or> c = 92 then [92, c]
      else if c = 9 then [92, 116]
      else if c = 10 then [92, 110]
      else if c = 13 then [92, 114]
      else if c < 32 \<or> 127 \<le> c then [92, 120, hex_digit (c div 16), hex_digit (c mod 16)]
      else [c])"

definition repr_bytes :: "string \<Rightarrow> pystr" where
  "repr_bytes bs =
     (let cs = map of_char bs;
          quote = (if 39 \<in> set cs \<and> 34 \<notin> set cs then 34 else 39)
      in [98, quote] @ concat (map (repr_byte quote) cs) @ [quote])"

fun py_str :: "pyval \<Rightarrow> pystr" where
  "py_str PNone = lit ''None''"
| "py_str (PStr s) = s"
| "py_str (PBytes bs) = repr_bytes bs"
| "py_str (PInt i) = str_int i"
| "py_str (PBool b) = (if b then lit ''True'' else lit ''False'')"

text \<open>The truth value of a Python object, as \<open>extra if extra else ''\<close> tests it.\<close>

fun py_bool :: "pyval \<Rightarrow> bool" where
  "py_bool PNone = False"
| "py_bool (PStr s) = (s \<noteq> [])"
| "py_bool (PBytes bs) = (bs \<noteq> [])"
| "py_bool (PInt i) = (i \<noteq> 0)"
| "py_bool (PBool b) = b"

subsection \<open>\<open>str.strip\<close> and \<open>str.replace\<close>\<close>

text \<open>The code points \<open>str.isspace\<close> accepts: \<open>strip()\<close> removes them at both ends.\<close>

definition py_isspace :: "nat \<Rightarrow> bool" where
  "py_isspace c =
     ((9 \<le> c \<and> c \<le> 13) \<or> (28 \<le> c \<and> c \<le> 32) \<or> c = 133 \<or> c = 160 \<or> c = 5760
      \<or> (8192 \<le> c \<and> c \<le> 8202) \<or> c = 8232 \<or> c = 8233 \<or> c = 8239 \<or> c = 8287
      \<or> c = 12288)"

definition py_strip :: "pystr \<Rightarrow> pystr" where
  "py_strip s = rev (dropWhile py_isspace (rev (dropWhile py_isspace s)))"

text \<open>
  \<open>s.replace(old, '')\<close>: every occurrence of \<open>old\<close>, leftmost first and without overlap, is
  removed. With an empty \<open>old\<close> the empty string is inserted everywhere and \<open>s\<close> is unchanged.
\<close>

fun py_remove_all :: "pystr \<Rightarrow> pystr \<Rightarrow> pystr" where
  "py_remove_all old [] = []"
| "py_remove_all old (c # cs) =
     (if old \<noteq> [] \<and> take (length old) (c # cs) = old
      then py_remove_all old (drop (length old) (c # cs))
      else c # py_remove_all old cs)"

subsection \<open>\<open>bytes.decode\<close>\<close>

datatype codec = UTF8 | Latin1 | ASCII

text \<open>
  Strict UTF-8: the shortest form only, no surrogates, nothing above \<open>U+10FFFF\<close>. The
  bounds on the second byte are those of the Unicode standard's table of well-formed
  sequences.
\<close>

definition utf8_cont :: "nat \<Rightarrow> bool" where
  "utf8_cont b = (128 \<le> b \<and> b \<le> 191)"

fun utf8_decode :: "nat list \<Rightarrow> pystr option" where
  "utf8_decode [] = Some []"
| "utf8_decode (b0 # bs) =
    (if b0 < 128 then map_option (Cons b0) (utf8_decode bs)
     else if 194 \<le> b0 \<and> b0 \<le> 223 then
       (case bs of
          b1 # r \<Rightarrow>
            if utf8_cont b1
            then map_option (Cons ((b0 - 192) * 64 + (b1 - 128))) (utf8_decode r)
            else None
        | _ \<Rightarrow> None)
     else if 224 \<le> b0 \<and> b0 \<le> 239 then
       (case bs of
          b1 # b2 # r \<Rightarrow>
            if (if b0 = 224 then 160 else 128) \<le> b1 \<and> b1 \<le> (if b0 = 237 then 159 else 191)
               \<and> utf8_cont b2
            then map_option (Cons ((b0 - 224) * 4096 + (b1 - 128) * 64 + (b2 - 128)))
                   (utf8_decode r)
            else None
        | _ \<Rightarrow> None)
     else if 240 \<le> b0 \<and> b0 \<le> 244 then
       (case bs of
          b1 # b2 # b3 # r \<Rightarrow>
            if (if b0 = 240 then 144 else 128) \<le> b1 \<and> b1 \<le> (if b0 = 244 then 143 else 191)
               \<and> utf8_cont b2 \<and> utf8_cont b3
            then map_option
                   (Cons ((b0 - 240) * 262144 + (b1 - 128) * 4096 + (b2 - 128) * 64 + (b3 - 128)))
                   (utf8_decode r)
            else None
        | _ \<Rightarrow> None)
     else None)"

definition bytes_decode :: "string \<Rightarrow> codec \<Rightarrow> py_error + pystr" where
  "bytes_decode bs c =
     (let cs = map of_char bs in
      case c of
        UTF8 \<Rightarrow> (case utf8_decode cs of Some s \<Rightarrow> Inr s | None \<Rightarrow> Inl UnicodeDecodeError)
      | Latin1 \<Rightarrow> Inr cs
      | ASCII \<Rightarrow> (if list_all (\<lambda>b. b < 128) cs then Inr cs else Inl UnicodeDecodeError))"

text \<open>
  \<open>val.decode(codec)\<close>: only a \<open>bytes\<close> object has the method; on any other value the
  attribute lookup raises \<open>AttributeError\<close>.
\<close>

fun py_decode :: "pyval \<Rightarrow> codec \<Rightarrow> py_error + pyval" where
  "py_decode (PBytes bs) c = map_sum id PStr (bytes_decode bs c)"
| "py_decode _ c = Inl AttributeError"

section \<open>The module-level function \<open>decode\<close>\<close>

definition decode :: "pyval \<Rightarrow> pyval" where
  "decode val =
     (if val = PNone \<or> py_str val = lit '''' then PNone
      else if py_strip (py_str val) = lit ''NULL'' then PNone
      else
        (case py_decode val UTF8 of
           Inr s \<Rightarrow> s
         | Inl _ \<Rightarrow>
             (case py_decode val Latin1 of
                Inr s \<Rightarrow> s
              | Inl _ \<Rightarrow>
                  (case py_decode val ASCII of
                     Inr s \<Rightarrow> s
                   | Inl _ \<Rightarrow> val))))"

section \<open>Numbers\<close>

text \<open>
  \<open>a / b\<close> on two Python ints is true division: the result is the IEEE double nearest to
  the exact quotient (ties to the even significand), and \<open>OverflowError\<close> is raised when
  that is beyond the largest double. \<open>float(a)\<close> rounds an int in the same way. A finite
  double is modelled by the rational number it denotes.
\<close>

definition round_half_even :: "rat \<Rightarrow> int" where
  "round_half_even x =
     (let f = \<lfloor>x\<rfloor>; d = x - of_int f
      in if d < 1 / 2 then f else if 1 / 2 < d then f + 1 else if even f then f else f + 1)"

fun bit_length :: "nat \<Rightarrow> nat" where
  "bit_length n = (if n = 0 then 0 else Suc (bit_length (n div 2)))"

text \<open>For \<open>0 < x\<close>, the exponent \<open>e\<close> with \<open>2 powi e \<le> x < 2 powi (e + 1)\<close>.\<close>

definition float_exponent :: "rat \<Rightarrow> int" where
  "float_exponent x =
     (if 1 \<le> x then int (bit_length (nat \<lfloor>x\<rfloor>)) - 1
      else - int (bit_length (nat (\<lceil>1 / x\<rceil> - 1))))"

definition to_double :: "rat \<Rightarrow> py_error + rat" where
  "to_double x =
     (if x = 0 then Inr 0
      else
        (let e = max (float_exponent \<bar>x\<bar>) (- 1022);
             ulp = 2 powi (e - 52);
             y = of_int (round_half_even (\<bar>x\<bar> / ulp)) * ulp
         in if 2 ^ 1024 \<le> y then Inl OverflowError else Inr (sgn x * y)))"

text \<open>The divisor is never zero in this program (it is the literal \<open>5\<close>).\<close>

definition int_truediv :: "int \<Rightarrow> int \<Rightarrow> py_error + rat" where
  "int_truediv a b = to_double (of_int a / of_int b)"

text \<open>
  \<open>f'{perc:.4f}'\<close> on an int: the int is converted to a double, which is then an integer,
  and printed with four zero decimals.
\<close>

definition format_4f :: "int \<Rightarrow> py_error + pystr" where
  "format_4f perc =
     (case to_double (of_int perc) of
        Inl err \<Rightarrow> Inl err
      | Inr x \<Rightarrow> Inr (str_int \<lfloor>x\<rfloor> @ lit ''.0000''))"

text \<open>
  \<open>s * n\<close>. The count must fit a signed 64-bit index, or \<open>OverflowError\<close> is raised; a count
  of zero or less gives the empty string; a result longer than the largest index is
  \<open>OverflowError\<close> again, and one the interpreter has no memory for is \<open>MemoryError\<close>. How long
  a string the interpreter can build at a call is a property of the machine, the parameter
  \<open>mem\<close>.
\<close>

definition py_repeat :: "nat \<Rightarrow> pystr \<Rightarrow> int \<Rightarrow> py_error + pystr" where
  "py_repeat mem s n =
     (if n < - (2 ^ 63) \<or> 2 ^ 63 \<le> n then Inl OverflowError
      else if n \<le> 0 \<or> s = [] then Inr []
      else if 2 ^ 63 \<le> int (length s) * n then Inl OverflowError
      else if int mem < int (length s) * n then Inl MemoryError
      else Inr (concat (replicate (nat n) s)))"

text \<open>\<open>xs[i]\<close>: a negative index counts from the end; out of range is \<open>IndexError\<close>.\<close>

definition py_index :: "'a list \<Rightarrow> int \<Rightarrow> py_error + 'a" where
  "py_index xs i =
     (if 0 \<le> i \<and> i < int (length xs) then Inr (xs ! nat i)
      else if i < 0 \<and> - int (length xs) \<le> i then Inr (xs ! nat (int (length xs) + i))
      else Inl IndexError)"

section \<open>The environment of the module\<close>

text \<open>
  The modules \<open>settings\<close> and \<open>colours\<close>, \<open>arrow\<close>, \<open>inspect\<close> and \<open>pathlib\<close> are
  collaborators of the logger, not part of it. What the logger reads from them at a call is
  the \<open>env\<close> of that call:
  \<^item> \<open>CONSOLE_LOG_LEVEL\<close> is \<open>None\<close> when reading the attribute raises an exception;
  \<^item> the seven colour functions are arbitrary functions on strings;
  \<^item> \<open>now\<close> is \<open>arrow.now().format('H:mm:ss')\<close>, \<open>cwd\<close> is \<open>str(Path.cwd())\<close>;
  \<^item> \<open>frames\<close> is \<open>inspect.getouterframes(curframe, 0)\<close>, each frame with its file name
    and line number;
  \<^item> \<open>memory\<close> is the length of the longest string the interpreter can build at the call.
\<close>

record settings =
  CONSOLE_LOG_LEVEL :: "pystr option"
  DEBUG :: bool
  CONSOLE_PATH_PREFIX :: pystr

record colours =
  blue :: "pystr \<Rightarrow> pystr"
  cyan :: "pystr \<Rightarrow> pystr"
  green :: "pystr \<Rightarrow> pystr"
  magenta :: "pystr \<Rightarrow> pystr"
  orange :: "pystr \<Rightarrow> pystr"
  red :: "pystr \<Rightarrow> pystr"
  bg_blue :: "pystr \<Rightarrow> pystr"

record env =
  settings :: settings
  colours :: colours
  now :: pystr
  cwd :: pystr
  frames :: "(pystr \<times> int) list"
  memory :: nat

text \<open>
  What the logger changes. \<open>terminal\<close> is the history of \<open>sys.stdout\<close>, one event for each
  call made on it: \<open>print(s)\<close> (the stream receives \<open>s\<close> and a newline), \<open>write(s)\<close> and
  \<open>flush()\<close>; \<open>sys.stdout\<close> is taken not to be rebound after the logger is built, so that
  \<open>print\<close> and \<open>self.terminal\<close> are one stream, and to have an encoding for every code
  point (a UTF-8 terminal), so that no write fails. \<open>guru\<close> is the history of the calls made on
  the loguru logger, and \<open>None\<close> when loguru cannot be imported: then \<open>USE_GURU\<close> is false.
\<close>

datatype event = Print pystr | Write pystr | Flush

datatype guru_method = GInfo | GWarning | GError | GSuccess

record world =
  terminal :: "event list"
  writing_progress :: bool
  spindex :: int
  path_prefix :: pystr
  guru :: "(guru_method \<times> pystr) list option"

definition USE_GURU :: "world \<Rightarrow> bool" where
  "USE_GURU w = (guru w \<noteq> None)"

definition guru_call :: "guru_method \<Rightarrow> pystr \<Rightarrow> world \<Rightarrow> world" where
  "guru_call m s w = w\<lparr>guru := map_option (\<lambda>cs. cs @ [(m, s)]) (guru w)\<rparr>"

definition LOG_LEVELS :: "(pystr \<times> int) list" where
  "LOG_LEVELS =
     [(lit ''LOG'', 0), (lit ''INFO'', 1), (lit ''SUCCESS'', 2), (lit ''TEMPLATE'', 3),
      (lit ''WARN'', 4), (lit ''ERROR'', 5)]"

definition CLEAR :: pystr where
  "CLEAR = [27, 91, 75]"

definition spinner_frames :: "pystr list" where
  "spinner_frames =
     [[10251], [10265], [10297], [10296], [10300], [10292], [10278], [10279], [10247], [10255]]"

section \<open>The class \<open>Logger\<close>\<close>

definition Logger_init :: "settings \<Rightarrow> world \<Rightarrow> world" where
  "Logger_init st w =
     w\<lparr>writing_progress := False, spindex := 0, path_prefix := CONSOLE_PATH_PREFIX st\<rparr>"

definition Logger_buffer :: "pystr \<Rightarrow> world \<Rightarrow> world" where
  "Logger_buffer msg w = w\<lparr>terminal := terminal w @ [Write msg, Flush]\<rparr>"

definition dict_getitem :: "(pystr \<times> int) list \<Rightarrow> pystr \<Rightarrow> py_error + int" where
  "dict_getitem d k = (case map_of d k of Some v \<Rightarrow> Inr v | None \<Rightarrow> Inl KeyError)"

definition Logger_check_log_level :: "env \<Rightarrow> pystr \<Rightarrow> py_error + bool" where
  "Logger_check_log_level e called_level =
     (let level_str = (case CONSOLE_LOG_LEVEL (settings e) of
                         Some s \<Rightarrow> s
                       | None \<Rightarrow> lit ''WARN'')
      in case dict_getitem LOG_LEVELS level_str of
           Inl err \<Rightarrow> Inl err
         | Inr level \<Rightarrow>
             (case dict_getitem LOG_LEVELS called_level of
                Inl err \<Rightarrow> Inl err
              | Inr called \<Rightarrow> Inr (level \<le> called)))"

definition Logger_get_code_position :: "env \<Rightarrow> world \<Rightarrow> pystr" where
  "Logger_get_code_position e w =
     (case py_index (frames e) 1 of
        Inl err \<Rightarrow> [175, 92, 95, 40, 12484, 41, 95, 47, 175]
      | Inr (filename, lineno) \<Rightarrow>
          path_prefix w @ py_remove_all (cwd e) filename @ lit '':'' @ str_int lineno)"

definition Logger_output :: "pystr \<Rightarrow> pyval \<Rightarrow> pyval \<Rightarrow> world \<Rightarrow> world" where
  "Logger_output prefix msg extra w =
     w\<lparr>terminal := terminal w @
         [Print (prefix @ [10] @ lit ''> '' @ py_str (decode msg) @ lit '' ''
                 @ py_str (if py_bool extra then extra else PStr (lit '''')))]\<rparr>"

definition Logger_ts :: "env \<Rightarrow> pystr" where
  "Logger_ts e = magenta (colours e) (now e)"

definition Logger_log :: "env \<Rightarrow> pyval \<Rightarrow> pyval \<Rightarrow> world \<Rightarrow> (py_error + unit) \<times> world" where
  "Logger_log e msg extra w =
     (case Logger_check_log_level e (lit ''LOG'') of
        Inl err \<Rightarrow> (Inl err, w)
      | Inr ok \<Rightarrow>
          if \<not> ok then (Inr (), w)
          else
            (let pos = Logger_get_code_position e w;
                 prefix = Logger_ts e @ lit '' - '' @ cyan (colours e) (lit ''LOG'') @ lit '' - '' @ pos
             in (Inr (), Logger_output prefix msg extra w)))"

definition Logger_info :: "env \<Rightarrow> pyval \<Rightarrow> pyval \<Rightarrow> world \<Rightarrow> (py_error + unit) \<times> world" where
  "Logger_info e msg extra w =
     (case Logger_check_log_level e (lit ''INFO'') of
        Inl err \<Rightarrow> (Inl err, w)
      | Inr ok \<Rightarrow>
          if \<not> ok then (Inr (), w)
          else
            (let pos = Logger_get_code_position e w;
                 prefix = Logger_ts e @ lit '' - '' @ blue (colours e) (lit ''INFO'') @ lit '' - '' @ pos
             in if USE_GURU w \<and> DEBUG (settings e) = False
                then (Inr (), guru_call GInfo
                                (prefix @ lit '' - '' @ py_str msg @ lit '' - '' @ py_str extra) w)
                else (Inr (), w)))"

definition Logger_warn :: "env \<Rightarrow> pyval \<Rightarrow> pyval \<Rightarrow> world \<Rightarrow> (py_error + unit) \<times> world" where
  "Logger_warn e msg extra w =
     (case Logger_check_log_level e (lit ''WARN'') of
        Inl err \<Rightarrow> (Inl err, w)
      | Inr ok \<Rightarrow>
          if \<not> ok then (Inr (), w)
          else
            (let pos = Logger_get_code_position e w;
                 prefix = Logger_ts e @ lit '' - '' @ orange (colours e) (lit ''WARN'') @ lit '' - '' @ pos;
                 w1 = Logger_output prefix msg extra w
             in if USE_GURU w1 \<and> DEBUG (settings e) = False
                then (Inr (), guru_call GWarning
                                (prefix @ lit '' - '' @ py_str msg @ lit '' - '' @ py_str extra) w1)
                else (Inr (), w1)))"

definition Logger_error :: "env \<Rightarrow> pyval \<Rightarrow> pyval \<Rightarrow> world \<Rightarrow> (py_error + unit) \<times> world" where
  "Logger_error e msg extra w =
     (case Logger_check_log_level e (lit ''ERROR'') of
        Inl err \<Rightarrow> (Inl err, w)
      | Inr ok \<Rightarrow>
          if \<not> ok then (Inr (), w)
          else
            (let pos = Logger_get_code_position e w;
                 prefix = Logger_ts e @ lit '' - '' @ red (colours e) (lit ''ERROR'') @ lit '' - '' @ pos
             in if USE_GURU w \<and> DEBUG (settings e) = False
                then (Inr (), guru_call GError
                                (prefix @ lit '' - '' @ py_str msg @ lit '' - '' @ py_str extra) w)
                else (Inr (), w)))"

definition Logger_success :: "env \<Rightarrow> pyval \<Rightarrow> pyval \<Rightarrow> world \<Rightarrow> (py_error + unit) \<times> world" where
  "Logger_success e msg extra w =
     (case Logger_check_log_level e (lit ''SUCCESS'') of
        Inl err \<Rightarrow> (Inl err, w)
      | Inr ok \<Rightarrow>
          if \<not> ok then (Inr (), w)
          else
            (let pos = Logger_get_code_position e w;
                 prefix = Logger_ts e @ lit '' - '' @ green (colours e) (lit ''SUCCESS'') @ lit '' - '' @ pos
             in if USE_GURU w \<and> DEBUG (settings e) = False
                then (Inr (), guru_call GSuccess
                                (prefix @ lit '' - '' @ py_str msg @ lit '' - '' @ py_str extra) w)
                else (Inr (), w)))"

definition Logger_template :: "env \<Rightarrow> pyval \<Rightarrow> pyval \<Rightarrow> world \<Rightarrow> (py_error + unit) \<times> world" where
  "Logger_template e msg extra w =
     (case Logger_check_log_level e (lit ''TEMPLATE'') of
        Inl err \<Rightarrow> (Inl err, w)
      | Inr ok \<Rightarrow>
          if \<not> ok then (Inr (), w)
          else
            (let pos = Logger_get_code_position e w;
                 prefix = Logger_ts e @ lit '' - '' @ magenta (colours e) (lit ''TEMPLATE'') @ lit '' - '' @ pos
             in if USE_GURU w \<and> DEBUG (settings e) = False
                then (Inr (), guru_call GSuccess
                                (prefix @ lit '' - '' @ py_str msg @ lit '' - '' @ py_str extra) w)
                else (Inr (), w)))"

definition Logger_parse :: "pyval \<Rightarrow> pystr" where
  "Logger_parse msg = (case msg of PStr s \<Rightarrow> s | _ \<Rightarrow> py_str msg)"

text \<open>
  \<open>progress\<close> takes the percentage as a Python int. An exception leaves the world as the
  statements before it made it: the spinner has advanced and the line has been cleared.
  The arguments of \<open>format\<close> are evaluated from left to right, and the formatted line is a
  string the interpreter must have memory for.
\<close>

definition Logger_progress :: "env \<Rightarrow> pyval \<Rightarrow> int \<Rightarrow> world \<Rightarrow> (py_error + unit) \<times> world" where
  "Logger_progress e msg perc w =
     (let w1 = (if spindex w = int (length spinner_frames) - 1
                then w\<lparr>spindex := 0\<rparr>
                else w\<lparr>spindex := spindex w + 1\<rparr>);
          message = blue (colours e) (Logger_parse msg);
          w2 = w1\<lparr>terminal := terminal w1 @ [Write (13 # CLEAR), Flush]\<rparr>
      in case int_truediv perc 5 of
           Inl err \<Rightarrow> (Inl err, w2)
         | Inr q1 \<Rightarrow>
        (let blocks = \<lfloor>q1\<rfloor> in
         case int_truediv (100 - perc) 5 of
           Inl err \<Rightarrow> (Inl err, w2)
         | Inr q2 \<Rightarrow>
        (let spaces = \<lceil>q2\<rceil> in
         case format_4f perc of
           Inl err \<Rightarrow> (Inl err, w2)
         | Inr human \<Rightarrow>
        (case py_repeat (memory e) (bg_blue (colours e) (lit '' '')) blocks of
           Inl err \<Rightarrow> (Inl err, w2)
         | Inr bar \<Rightarrow>
        (case py_repeat (memory e) (lit '' '') spaces of
           Inl err \<Rightarrow> (Inl err, w2)
         | Inr gap \<Rightarrow>
        (case py_index spinner_frames (spindex w2) of
           Inl err \<Rightarrow> (Inl err, w2)
         | Inr frame \<Rightarrow>
        (let line = lit '' ['' @ bar @ gap @ lit ''] '' @ magenta (colours e) frame @ lit '' ''
                    @ human @ lit ''% '' @ message @ [13]
         in if memory e < length line then (Inl MemoryError, w2)
            else (Inr (),
                  w2\<lparr>terminal := terminal w2 @ [Write line, Flush],
                     writing_progress := True\<rparr>))))))))"

section \<open>The six levelled calls, by level\<close>

text \<open>
  The six methods differ in the level they pass to \<open>_check_log_level\<close>, the colour of the
  tag, and where the line goes. To state a property of all six at once, \<open>emit\<close> selects the
  method by its level; \<open>severity\<close> is the ordinal of the level in the table \<open>LOG_LEVELS\<close>.
\<close>

datatype level = LOG | INFO | SUCCESS | TEMPLATE | WARN | ERROR

fun level_name :: "level \<Rightarrow> pystr" where
  "level_name LOG = lit ''LOG''"
| "level_name INFO = lit ''INFO''"
| "level_name SUCCESS = lit ''SUCCESS''"
| "level_name TEMPLATE = lit ''TEMPLATE''"
| "level_name WARN = lit ''WARN''"
| "level_name ERROR = lit ''ERROR''"

fun severity :: "level \<Rightarrow> int" where
  "severity LOG = 0"
| "severity INFO = 1"
| "severity SUCCESS = 2"
| "severity TEMPLATE = 3"
| "severity WARN = 4"
| "severity ERROR = 5"

fun emit :: "level \<Rightarrow> env \<Rightarrow> pyval \<Rightarrow> pyval \<Rightarrow> world \<Rightarrow> (py_error + unit) \<times> world" where
  "emit LOG = Logger_log"
| "emit INFO = Logger_info"
| "emit SUCCESS = Logger_success"
| "emit TEMPLATE = Logger_template"
| "emit WARN = Logger_warn"
| "emit ERROR = Logger_error"

text \<open>The colour of each level's tag, and the method of the sink a level is routed to.\<close>

fun tag_colour :: "level \<Rightarrow> colours \<Rightarrow> pystr \<Rightarrow> pystr" where
  "tag_colour LOG = cyan"
| "tag_colour INFO = blue"
| "tag_colour SUCCESS = green"
| "tag_colour TEMPLATE = magenta"
| "tag_colour WARN = orange"
| "tag_colour ERROR = red"

fun sink_method :: "level \<Rightarrow> guru_method" where
  "sink_method INFO = GInfo"
| "sink_method SUCCESS = GSuccess"
| "sink_method TEMPLATE = GSuccess"
| "sink_method WARN = GWarning"
| "sink_method ERROR = GError"
| "sink_method LOG = GInfo"

text \<open>
  The texts of a call, as the specification words them: the prefix
  \<open>{timestamp} - {level} - {position}\<close>, the line printed on the stream and the string
  handed to the sink.
\<close>

definition prefix_of :: "level \<Rightarrow> env \<Rightarrow> world \<Rightarrow> pystr" where
  "prefix_of l e w =
     magenta (colours e) (now e) @ lit '' - '' @ tag_colour l (colours e) (level_name l)
     @ lit '' - '' @ Logger_get_code_position e w"

definition stream_line :: "level \<Rightarrow> env \<Rightarrow> pyval \<Rightarrow> pyval \<Rightarrow> world \<Rightarrow> pystr" where
  "stream_line l e msg extra w =
     prefix_of l e w @ [10] @ lit ''> '' @ py_str (decode msg) @ lit '' ''
     @ (if py_bool extra then py_str extra else [])"

definition sink_line :: "level \<Rightarrow> env \<Rightarrow> pyval \<Rightarrow> pyval \<Rightarrow> world \<Rightarrow> pystr" where
  "sink_line l e msg extra w =
     prefix_of l e w @ lit '' - '' @ py_str msg @ lit '' - '' @ py_str extra"

text \<open>Calling \<open>progress\<close> again and again, whatever each call returns or raises.\<close>

fun progress_calls :: "env \<Rightarrow> (pyval \<times> int) list \<Rightarrow> world \<Rightarrow> world" where
  "progress_calls e [] w = w"
| "progress_calls e ((msg, perc) # rest) w =
     progress_calls e rest (snd (Logger_progress e msg perc w))"


text \<open>
  The first decoding that succeeds, as the specification words \<open>decode\<close>: the codecs are
  tried in the order given, and \<open>None\<close> says that none of them decoded the value.
\<close>

fun first_decoding :: "pyval \<Rightarrow> codec list \<Rightarrow> pyval option" where
  "first_decoding val [] = None"
| "first_decoding val (c # cs) =
     (case py_decode val c of Inr s \<Rightarrow> Some s | Inl err \<Rightarrow> first_decoding val cs)"

section \<open>A concrete environment\<close>

text \<open>ANSI escape sequences for the colours, a caller at \<open>/srv/main.py:7\<close>, a sink.\<close>

definition ansi :: "pystr \<Rightarrow> pystr \<Rightarrow> pystr" where
  "ansi code s = [27, 91] @ code @ [109] @ s @ [27, 91, 48, 109]"

definition ex_colours :: colours where
  "ex_colours =
     \<lparr>blue = ansi (lit ''34''), cyan = ansi (lit ''36''), green = ansi (lit ''32''),
      magenta = ansi (lit ''35''), orange = ansi (lit ''33''), red = ansi (lit ''31''),
      bg_blue = ansi (lit ''44'')\<rparr>"

definition ex_env :: "pystr option \<Rightarrow> bool \<Rightarrow> env" where
  "ex_env lvl dbg =
     \<lparr>settings = \<lparr>CONSOLE_LOG_LEVEL = lvl, DEBUG = dbg, CONSOLE_PATH_PREFIX = lit ''app''\<rparr>,
      colours = ex_colours, now = lit ''9:05:07'', cwd = lit ''/srv'',
      frames = [(lit ''/srv/consoler/console.py'', 102), (lit ''/srv/main.py'', 7)],
      memory = 2 ^ 31\<rparr>"

definition ex_world :: world where
  "ex_world =
     \<lparr>terminal = [], writing_progress = False, spindex = 0, path_prefix = lit ''app'',
      guru = Some []\<rparr>"

section \<open>Lemmas on the levelled calls\<close>

lemma LOG_LEVELS_level_name:
  "dict_getitem LOG_LEVELS (level_name l) = Inr (severity l)"
  by (cases l) (simp_all add: dict_getitem_def LOG_LEVELS_def lit_def)

lemma check_log_level_Some:
  "CONSOLE_LOG_LEVEL (settings e) = Some (level_name t) \<Longrightarrow>
   Logger_check_log_level e (level_name l) = Inr (severity t \<le> severity l)"
  by (simp add: Logger_check_log_level_def LOG_LEVELS_level_name)


lemmas emit_defs =
  Logger_log_def Logger_info_def Logger_success_def Logger_template_def Logger_warn_def
  Logger_error_def Logger_output_def Logger_ts_def guru_call_def USE_GURU_def

lemma emit_raise:
  "Logger_check_log_level e (level_name l) = Inl err \<Longrightarrow> emit l e msg extra w = (Inl err, w)"
  by (cases l) (simp_all add: emit_defs)

lemma emit_drop:
  "Logger_check_log_level e (level_name l) = Inr False \<Longrightarrow> emit l e msg extra w = (Inr (), w)"
  by (cases l) (simp_all add: emit_defs)

lemma emit_pass:
  "Logger_check_log_level e (level_name l) = Inr True \<Longrightarrow>
   emit l e msg extra w =
     (Inr (),
      w\<lparr>terminal := terminal w @
           (if l = LOG \<or> l = WARN then [Print (stream_line l e msg extra w)] else []),
        guru := (if l \<noteq> LOG \<and> \<not> DEBUG (settings e)
                 then map_option (\<lambda>cs. cs @ [(sink_method l, sink_line l e msg extra w)]) (guru w)
                 else guru w)\<rparr>)"
  by (cases l; cases "guru w")
     (simp_all add: emit_defs Let_def stream_line_def sink_line_def prefix_of_def lit_def)

section \<open>Claims on the levelled calls\<close>

text \<open>
  C1, as the claim states it, fails: it gates the sink call by the threshold and the debug
  flag only, and the code also tests \<open>USE_GURU\<close>. Here loguru is absent, the threshold is
  LOG and the debug flag is false: an error call passes the filter and returns with the
  world as it was, so there is no sink call where the claim says exactly one.
\<close>

theorem C1_sink_absent_counterexample:
  "Logger_check_log_level (ex_env (Some (lit ''LOG'')) False) (lit ''ERROR'') = Inr True
   \<and> DEBUG (settings (ex_env (Some (lit ''LOG'')) False)) = False
   \<and> Logger_error (ex_env (Some (lit ''LOG'')) False) (PStr (lit ''boom'')) PNone
         (ex_world\<lparr>guru := None\<rparr>)
       = (Inr (), ex_world\<lparr>guru := None\<rparr>)"
proof -
  have pass: "Logger_check_log_level (ex_env (Some (lit ''LOG'')) False) (level_name ERROR)
      = Inr True"
    using check_log_level_Some [of "ex_env (Some (lit ''LOG'')) False" LOG ERROR]
    by (simp add: ex_env_def)
  have dbg: "DEBUG (settings (ex_env (Some (lit ''LOG'')) False)) = False"
    by (simp add: ex_env_def)
  have "emit ERROR (ex_env (Some (lit ''LOG'')) False) (PStr (lit ''boom'')) PNone
          (ex_world\<lparr>guru := None\<rparr>)
        = (Inr (), ex_world\<lparr>guru := None\<rparr>)"
    using emit_pass [OF pass, of "PStr (lit ''boom'')" PNone "ex_world\<lparr>guru := None\<rparr>"]
    by simp
  with pass dbg show ?thesis
    by simp
qed

text \<open>
  C1, amended. With the threshold set to a level \<open>t\<close>, a call of level \<open>l\<close> raises nothing.
  When \<open>t\<close> is strictly above \<open>l\<close> the world is unchanged: nothing is written and the sink
  is not called. Otherwise the stream receives exactly one formatted line when \<open>l\<close> is LOG
  or WARN and nothing otherwise; and when the external sink is available, it receives
  exactly one call when \<open>l\<close> is INFO, SUCCESS, TEMPLATE, WARN or ERROR and the debug flag
  is false, and no call otherwise. When the sink is not available there is none to call.
\<close>

theorem C1_threshold_filter:
  assumes "CONSOLE_LOG_LEVEL (settings e) = Some (level_name t)"
  shows "emit l e msg extra w =
     (Inr (),
      if severity l < severity t then w
      else w\<lparr>terminal := terminal w @
                (if l = LOG \<or> l = WARN then [Print (stream_line l e msg extra w)] else []),
             guru := (if l \<noteq> LOG \<and> \<not> DEBUG (settings e)
                      then map_option (\<lambda>cs. cs @ [(sink_method l, sink_line l e msg extra w)])
                             (guru w)
                      else guru w)\<rparr>)"
proof (cases "severity l < severity t")
  case True
  with assms have "Logger_check_log_level e (level_name l) = Inr False"
    by (simp add: check_log_level_Some)
  with True show ?thesis
    by (simp add: emit_drop)
next
  case False
  with assms have "Logger_check_log_level e (level_name l) = Inr True"
    by (simp add: check_log_level_Some)
  with False show ?thesis
    by (simp add: emit_pass)
qed

theorem C1_threshold_filter_witness:
  "CONSOLE_LOG_LEVEL (settings (ex_env (Some (lit ''INFO'')) False)) = Some (level_name INFO)
   \<and> emit LOG (ex_env (Some (lit ''INFO'')) False) (PStr (lit ''tick'')) PNone ex_world
       = (Inr (), ex_world)
   \<and> emit WARN (ex_env (Some (lit ''INFO'')) False) (PStr (lit ''disk low'')) PNone ex_world
       = (Inr (),
          ex_world
            \<lparr>terminal :=
               [Print (stream_line WARN (ex_env (Some (lit ''INFO'')) False)
                         (PStr (lit ''disk low'')) PNone ex_world)],
             guru :=
               Some [(GWarning, sink_line WARN (ex_env (Some (lit ''INFO'')) False)
                                  (PStr (lit ''disk low'')) PNone ex_world)]\<rparr>)"
proof -
  have h: "CONSOLE_LOG_LEVEL (settings (ex_env (Some (lit ''INFO'')) False))
             = Some (level_name INFO)"
    by (simp add: ex_env_def)
  show ?thesis
    using h
      C1_threshold_filter [OF h, of LOG "PStr (lit ''tick'')" PNone ex_world]
      C1_threshold_filter [OF h, of WARN "PStr (lit ''disk low'')" PNone ex_world]
    by (simp add: ex_env_def ex_world_def)
qed

text \<open>
  C2, as the claim states it, fails: a WARN call that passes the filter is not forwarded to
  the sink while the debug flag is true. Here the sink is present and the threshold is LOG;
  the line is printed and the sink receives nothing.
\<close>

theorem C2_warn_not_forwarded_counterexample:
  "Logger_check_log_level (ex_env (Some (lit ''LOG'')) True) (lit ''WARN'') = Inr True
   \<and> guru ex_world = Some []
   \<and> guru (snd (Logger_warn (ex_env (Some (lit ''LOG'')) True) (PStr (lit ''disk low'')) PNone
                  ex_world)) = Some []"
proof -
  have "Logger_check_log_level (ex_env (Some (lit ''LOG'')) True) (level_name WARN) = Inr True"
    using check_log_level_Some [of "ex_env (Some (lit ''LOG'')) True" LOG WARN]
    by (simp add: ex_env_def)
  then show ?thesis
    using emit_pass [of "ex_env (Some (lit ''LOG'')) True" WARN "PStr (lit ''disk low'')" PNone
        ex_world]
    by (simp add: ex_env_def ex_world_def)
qed

text \<open>
  C2, amended. A call to info, success, template or error never changes the stream: what it
  emits goes to the sink only. A template call that passes the filter hands its string to
  the sink's \<open>success\<close> method, when the sink is available and the debug flag is false,
  and calls nothing otherwise. A warn call that passes the filter prints its line on the
  stream, and, when the sink is available and the debug flag is false, hands a string to
  the sink's \<open>warning\<close> method; otherwise it calls nothing.
\<close>

theorem C2_routing:
  "(l = INFO \<or> l = SUCCESS \<or> l = TEMPLATE \<or> l = ERROR \<longrightarrow>
      terminal (snd (emit l e msg extra w)) = terminal w)
   \<and> (Logger_check_log_level e (lit ''TEMPLATE'') = Inr True \<longrightarrow>
        guru (snd (Logger_template e msg extra w))
          = (if guru w \<noteq> None \<and> \<not> DEBUG (settings e)
             then map_option (\<lambda>cs. cs @ [(GSuccess, sink_line TEMPLATE e msg extra w)]) (guru w)
             else guru w))
   \<and> (Logger_check_log_level e (lit ''WARN'') = Inr True \<longrightarrow>
        terminal (snd (Logger_warn e msg extra w))
          = terminal w @ [Print (stream_line WARN e msg extra w)]
        \<and> guru (snd (Logger_warn e msg extra w))
            = (if guru w \<noteq> None \<and> \<not> DEBUG (settings e)
               then map_option (\<lambda>cs. cs @ [(GWarning, sink_line WARN e msg extra w)]) (guru w)
               else guru w))"
proof (intro conjI impI)
  assume quiet: "l = INFO \<or> l = SUCCESS \<or> l = TEMPLATE \<or> l = ERROR"
  show "terminal (snd (emit l e msg extra w)) = terminal w"
  proof (cases "Logger_check_log_level e (level_name l)")
    case (Inl err)
    then show ?thesis by (simp add: emit_raise)
  next
    case (Inr ok)
    with quiet show ?thesis
      by (cases ok) (auto simp: emit_drop emit_pass)
  qed
next
  assume "Logger_check_log_level e (lit ''TEMPLATE'') = Inr True"
  then show "guru (snd (Logger_template e msg extra w))
      = (if guru w \<noteq> None \<and> \<not> DEBUG (settings e)
         then map_option (\<lambda>cs. cs @ [(GSuccess, sink_line TEMPLATE e msg extra w)]) (guru w)
         else guru w)"
    using emit_pass [of e TEMPLATE msg extra w] by (cases "guru w") simp_all
next
  assume pass: "Logger_check_log_level e (lit ''WARN'') = Inr True"
  then show "terminal (snd (Logger_warn e msg extra w))
      = terminal w @ [Print (stream_line WARN e msg extra w)]"
    using emit_pass [of e WARN msg extra w] by simp
  from pass show "guru (snd (Logger_warn e msg extra w))
      = (if guru w \<noteq> None \<and> \<not> DEBUG (settings e)
         then map_option (\<lambda>cs. cs @ [(GWarning, sink_line WARN e msg extra w)]) (guru w)
         else guru w)"
    using emit_pass [of e WARN msg extra w] by (cases "guru w") simp_all
qed

lemma check_log_level_ex:
  "Logger_check_log_level (ex_env (Some (level_name t)) dbg) (level_name l)
     = Inr (severity t \<le> severity l)"
  by (rule check_log_level_Some) (simp add: ex_env_def)

theorem C2_routing_witness:
  "terminal (snd (emit TEMPLATE (ex_env (Some (lit ''LOG'')) False) (PStr (lit ''page.html''))
                    PNone ex_world)) = []
   \<and> Logger_check_log_level (ex_env (Some (lit ''LOG'')) False) (lit ''TEMPLATE'') = Inr True
   \<and> guru (snd (Logger_template (ex_env (Some (lit ''LOG'')) False) (PStr (lit ''page.html''))
                  PNone ex_world))
       = Some [(GSuccess, sink_line TEMPLATE (ex_env (Some (lit ''LOG'')) False)
                            (PStr (lit ''page.html'')) PNone ex_world)]
   \<and> Logger_check_log_level (ex_env (Some (lit ''LOG'')) False) (lit ''WARN'') = Inr True
   \<and> terminal (snd (Logger_warn (ex_env (Some (lit ''LOG'')) False) (PStr (lit ''page.html''))
                      PNone ex_world))
       = [Print (stream_line WARN (ex_env (Some (lit ''LOG'')) False)
                   (PStr (lit ''page.html'')) PNone ex_world)]
   \<and> guru (snd (Logger_warn (ex_env (Some (lit ''LOG'')) False) (PStr (lit ''page.html''))
                  PNone ex_world))
       = Some [(GWarning, sink_line WARN (ex_env (Some (lit ''LOG'')) False)
                            (PStr (lit ''page.html'')) PNone ex_world)]"
proof -
  have t: "Logger_check_log_level (ex_env (Some (lit ''LOG'')) False) (lit ''TEMPLATE'') = Inr True"
    using check_log_level_ex [of LOG False TEMPLATE] by simp
  have w: "Logger_check_log_level (ex_env (Some (lit ''LOG'')) False) (lit ''WARN'') = Inr True"
    using check_log_level_ex [of LOG False WARN] by simp
  have g: "guru ex_world = Some []" "terminal ex_world = []"
          "\<not> DEBUG (settings (ex_env (Some (lit ''LOG'')) False))"
    by (simp_all add: ex_world_def ex_env_def)
  show ?thesis
    using t w g
      C2_routing [of TEMPLATE "ex_env (Some (lit ''LOG'')) False" "PStr (lit ''page.html'')"
        PNone ex_world]
    by simp
qed


lemma check_log_level_DEBUG:
  "Logger_check_log_level (e\<lparr>settings := (settings e)\<lparr>DEBUG := d\<rparr>\<rparr>) n
     = Logger_check_log_level e n"
  by (simp add: Logger_check_log_level_def)

lemma get_code_position_settings:
  "Logger_get_code_position (e\<lparr>settings := s\<rparr>) w = Logger_get_code_position e w"
  by (simp add: Logger_get_code_position_def split: sum.split prod.split)

lemma lines_settings:
  "stream_line l (e\<lparr>settings := s\<rparr>) msg extra w = stream_line l e msg extra w"
  "sink_line l (e\<lparr>settings := s\<rparr>) msg extra w = sink_line l e msg extra w"
  by (simp_all add: stream_line_def sink_line_def prefix_of_def get_code_position_settings)

text \<open>
  C3. While the debug flag is true no levelled call changes the sink, whatever its level,
  and what the call writes on the stream is what it writes with the flag false and
  everything else the same.
\<close>

theorem C3_debug_suppresses_sink:
  assumes "DEBUG (settings e)"
  shows "guru (snd (emit l e msg extra w)) = guru w
    \<and> terminal (snd (emit l e msg extra w))
        = terminal (snd (emit l (e\<lparr>settings := (settings e)\<lparr>DEBUG := False\<rparr>\<rparr>) msg extra w))"
proof (cases "Logger_check_log_level e (level_name l)")
  case (Inl err)
  then show ?thesis
    by (simp add: emit_raise check_log_level_DEBUG)
next
  case (Inr ok)
  then have "Logger_check_log_level (e\<lparr>settings := (settings e)\<lparr>DEBUG := False\<rparr>\<rparr>) (level_name l)
      = Inr ok"
    by (simp add: check_log_level_DEBUG)
  with Inr assms show ?thesis
    by (cases ok) (simp_all add: emit_drop emit_pass lines_settings)
qed

theorem C3_debug_suppresses_sink_witness:
  "DEBUG (settings (ex_env (Some (lit ''LOG'')) True))
   \<and> guru (snd (emit WARN (ex_env (Some (lit ''LOG'')) True) (PStr (lit ''disk low'')) PNone
                  ex_world)) = Some []
   \<and> terminal (snd (emit WARN (ex_env (Some (lit ''LOG'')) True) (PStr (lit ''disk low'')) PNone
                      ex_world))
       = terminal (snd (emit WARN (ex_env (Some (lit ''LOG'')) False) (PStr (lit ''disk low''))
                          PNone ex_world))"
proof -
  have h: "DEBUG (settings (ex_env (Some (lit ''LOG'')) True))"
    by (simp add: ex_env_def)
  have e: "(ex_env (Some (lit ''LOG'')) True)
             \<lparr>settings := (settings (ex_env (Some (lit ''LOG'')) True))\<lparr>DEBUG := False\<rparr>\<rparr>
           = ex_env (Some (lit ''LOG'')) False"
    by (simp add: ex_env_def)
  have g: "guru ex_world = Some []"
    by (simp add: ex_world_def)
  note t = C3_debug_suppresses_sink [OF h, of WARN "PStr (lit ''disk low'')" PNone ex_world,
      unfolded e]
  show ?thesis
    by (rule conjI [OF h conjI [OF t [THEN conjunct1, unfolded g] t [THEN conjunct2]]])
qed

section \<open>Claims on the threshold lookup\<close>





text \<open>
  C10. When the settings give a threshold that is not one of the six level names, each of
  the six calls raises \<open>KeyError\<close> and changes nothing: it does not fall back to WARN and
  emits nothing.
\<close>

theorem C10_unknown_threshold_KeyError:
  assumes "CONSOLE_LOG_LEVEL (settings e) = Some s"
    and "s \<notin> {lit ''LOG'', lit ''INFO'', lit ''SUCCESS'', lit ''TEMPLATE'', lit ''WARN'',
               lit ''ERROR''}"
  shows "emit l e msg extra w = (Inl KeyError, w)"
proof -
  from assms(2) have "map_of LOG_LEVELS s = None"
    by (simp add: LOG_LEVELS_def)
  with assms(1) have "Logger_check_log_level e (level_name l) = Inl KeyError"
    by (simp add: Logger_check_log_level_def dict_getitem_def)
  then show ?thesis
    by (rule emit_raise)
qed

theorem C10_unknown_threshold_KeyError_witness:
  "CONSOLE_LOG_LEVEL (settings (ex_env (Some (lit ''DEBUG'')) False)) = Some (lit ''DEBUG'')
   \<and> lit ''DEBUG'' \<notin> {lit ''LOG'', lit ''INFO'', lit ''SUCCESS'', lit ''TEMPLATE'', lit ''WARN'',
                        lit ''ERROR''}
   \<and> emit ERROR (ex_env (Some (lit ''DEBUG'')) False) (PStr (lit ''boom'')) PNone ex_world
       = (Inl KeyError, ex_world)"
proof -
  have h: "CONSOLE_LOG_LEVEL (settings (ex_env (Some (lit ''DEBUG'')) False)) = Some (lit ''DEBUG'')"
    by (simp add: ex_env_def)
  have n: "lit ''DEBUG'' \<notin> {lit ''LOG'', lit ''INFO'', lit ''SUCCESS'', lit ''TEMPLATE'',
                              lit ''WARN'', lit ''ERROR''}"
    by (simp add: lit_def)
  show ?thesis
    by (rule conjI [OF h conjI [OF n
          C10_unknown_threshold_KeyError [OF h n, of ERROR "PStr (lit ''boom'')" PNone ex_world]]])
qed

section \<open>Claims on the rendered text\<close>

lemma decode_None:
  "msg = PNone \<or> py_str msg = [] \<or> py_strip (py_str msg) = lit ''NULL'' \<Longrightarrow>
   decode msg = PNone"
  by (auto simp: decode_def lit_def)

text \<open>
  C9. A log or warn call that passes the filter with a message that is \<open>None\<close>, the empty
  string, or a value whose stripped \<open>str\<close> is \<open>NULL\<close>, prints a line with the text \<open>None\<close>
  in the message position, right after \<open>> \<close>: \<open>decode\<close> returns \<open>None\<close> and \<open>format\<close>
  renders it.
\<close>

theorem C9_None_message:
  assumes "l = LOG \<or> l = WARN"
    and "Logger_check_log_level e (level_name l) = Inr True"
    and "msg = PNone \<or> py_str msg = [] \<or> py_strip (py_str msg) = lit ''NULL''"
  shows "decode msg = PNone
    \<and> terminal (snd (emit l e msg extra w))
        = terminal w @
          [Print (prefix_of l e w @ [10] @ lit ''> None ''
                  @ (if py_bool extra then py_str extra else []))]"
proof
  from assms(3) show none: "decode msg = PNone"
    by (rule decode_None)
  have "stream_line l e msg extra w
      = prefix_of l e w @ [10] @ lit ''> None '' @ (if py_bool extra then py_str extra else [])"
    by (simp add: stream_line_def none lit_def)
  with assms(1) show "terminal (snd (emit l e msg extra w))
      = terminal w @
        [Print (prefix_of l e w @ [10] @ lit ''> None ''
                @ (if py_bool extra then py_str extra else []))]"
    using emit_pass [OF assms(2), of msg extra w] by auto
qed

theorem C9_None_message_witness:
  "Logger_check_log_level (ex_env (Some (lit ''LOG'')) False) (level_name LOG) = Inr True
   \<and> py_strip (py_str (PStr (lit '' NULL ''))) = lit ''NULL''
   \<and> decode (PStr (lit '' NULL '')) = PNone
   \<and> terminal (snd (emit LOG (ex_env (Some (lit ''LOG'')) False) (PStr (lit '' NULL '')) PNone
                      ex_world))
       = [Print (prefix_of LOG (ex_env (Some (lit ''LOG'')) False) ex_world @ [10]
                 @ lit ''> None '')]"
proof -
  have pass: "Logger_check_log_level (ex_env (Some (lit ''LOG'')) False) (level_name LOG)
      = Inr True"
    using check_log_level_ex [of LOG False LOG] by simp
  have null: "py_strip (py_str (PStr (lit '' NULL ''))) = lit ''NULL''"
    by (simp add: py_strip_def py_isspace_def lit_def)
  have t: "terminal ex_world = []"
    by (simp add: ex_world_def)
  note c = C9_None_message [of LOG "ex_env (Some (lit ''LOG'')) False" "PStr (lit '' NULL '')"
      PNone ex_world, OF _ pass, simplified null t]
  from pass null c show ?thesis
    by simp
qed

text \<open>
  C6. The claim holds of the line printed on the stream and fails on the string handed to
  the sink. With the extra argument omitted, a warn call prints a line that ends with the
  message and one space; an info call hands the sink a string that ends in \<open> - None\<close>, as
  \<open>str(None)\<close> is interpolated where \<open>_output\<close> puts the empty string.
\<close>

theorem C6_extra_omitted:
  "terminal (snd (Logger_warn (ex_env (Some (lit ''LOG'')) True) (PStr (lit ''hello'')) PNone
                    ex_world))
     = [Print (prefix_of WARN (ex_env (Some (lit ''LOG'')) True) ex_world @ [10]
               @ lit ''> hello '')]
   \<and> guru (snd (Logger_info (ex_env (Some (lit ''LOG'')) False) (PStr (lit ''hello'')) PNone
                  ex_world))
       = Some [(GInfo, prefix_of INFO (ex_env (Some (lit ''LOG'')) False) ex_world
                       @ lit '' - hello - None'')]"
proof
  have hello: "decode (PStr (lit ''hello'')) = PStr (lit ''hello'')"
    by (simp add: decode_def py_strip_def py_isspace_def lit_def)
  have "Logger_check_log_level (ex_env (Some (lit ''LOG'')) True) (level_name WARN) = Inr True"
    using check_log_level_ex [of LOG True WARN] by simp
  from emit_pass [OF this, of "PStr (lit ''hello'')" PNone ex_world]
  show "terminal (snd (Logger_warn (ex_env (Some (lit ''LOG'')) True) (PStr (lit ''hello''))
                         PNone ex_world))
      = [Print (prefix_of WARN (ex_env (Some (lit ''LOG'')) True) ex_world @ [10]
                @ lit ''> hello '')]"
    by (simp add: stream_line_def hello ex_world_def) (simp add: lit_def)
  have "Logger_check_log_level (ex_env (Some (lit ''LOG'')) False) (level_name INFO) = Inr True"
    using check_log_level_ex [of LOG False INFO] by simp
  from emit_pass [OF this, of "PStr (lit ''hello'')" PNone ex_world]
  show "guru (snd (Logger_info (ex_env (Some (lit ''LOG'')) False) (PStr (lit ''hello'')) PNone
                     ex_world))
      = Some [(GInfo, prefix_of INFO (ex_env (Some (lit ''LOG'')) False) ex_world
                      @ lit '' - hello - None'')]"
    by (simp add: sink_line_def ex_world_def) (simp add: ex_env_def lit_def)
qed

section \<open>Claims on \<open>decode\<close>\<close>

text \<open>
  C5. \<open>decode\<close> returns \<open>None\<close> for \<open>None\<close>, for a value whose \<open>str\<close> is empty and for one
  whose stripped \<open>str\<close> is \<open>NULL\<close>. For any other value it returns the first of the UTF-8,
  Latin-1 and ASCII decodings that succeeds, and the value itself when none does: when it
  has no \<open>decode\<close> method or each attempt raises. \<open>decode("hello")\<close> is \<open>"hello"\<close>.
\<close>

theorem C5_decode:
  "(val = PNone \<or> py_str val = [] \<or> py_strip (py_str val) = lit ''NULL'' \<longrightarrow>
      decode val = PNone)
   \<and> (val \<noteq> PNone \<and> py_str val \<noteq> [] \<and> py_strip (py_str val) \<noteq> lit ''NULL'' \<longrightarrow>
        decode val
          = (case first_decoding val [UTF8, Latin1, ASCII] of Some s \<Rightarrow> s | None \<Rightarrow> val))
   \<and> decode (PStr (lit ''hello'')) = PStr (lit ''hello'')"
proof (intro conjI impI)
  assume "val = PNone \<or> py_str val = [] \<or> py_strip (py_str val) = lit ''NULL''"
  then show "decode val = PNone"
    by (rule decode_None)
next
  assume "val \<noteq> PNone \<and> py_str val \<noteq> [] \<and> py_strip (py_str val) \<noteq> lit ''NULL''"
  then show "decode val
      = (case first_decoding val [UTF8, Latin1, ASCII] of Some s \<Rightarrow> s | None \<Rightarrow> val)"
    by (simp add: decode_def lit_def split: sum.splits)
next
  show "decode (PStr (lit ''hello'')) = PStr (lit ''hello'')"
    by (simp add: decode_def py_strip_def py_isspace_def lit_def)
qed

theorem C5_decode_witness:
  "py_strip (py_str (PStr (lit '' NULL ''))) = lit ''NULL''
   \<and> decode (PStr (lit '' NULL '')) = PNone
   \<and> PBytes [CHR 0xE9] \<noteq> PNone
   \<and> py_str (PBytes [CHR 0xE9]) \<noteq> []
   \<and> py_strip (py_str (PBytes [CHR 0xE9])) \<noteq> lit ''NULL''
   \<and> first_decoding (PBytes [CHR 0xE9]) [UTF8, Latin1, ASCII] = Some (PStr [233])
   \<and> decode (PBytes [CHR 0xE9]) = PStr [233]
   \<and> first_decoding (PInt 7) [UTF8, Latin1, ASCII] = None
   \<and> decode (PInt 7) = PInt 7"
proof -
  have null: "py_strip (py_str (PStr (lit '' NULL ''))) = lit ''NULL''"
    by (simp add: py_strip_def py_isspace_def lit_def)
  have s: "py_str (PBytes [CHR 0xE9]) = [98, 39, 92, 120, 101, 57, 39]"
    by (simp add: repr_bytes_def repr_byte_def hex_digit_def)
  have b: "py_str (PBytes [CHR 0xE9]) \<noteq> []"
          "py_strip (py_str (PBytes [CHR 0xE9])) \<noteq> lit ''NULL''"
    by (simp_all add: repr_bytes_def repr_byte_def hex_digit_def py_strip_def py_isspace_def
        lit_def)
  have f: "first_decoding (PBytes [CHR 0xE9]) [UTF8, Latin1, ASCII] = Some (PStr [233])"
    by (simp add: bytes_decode_def)
  have i: "py_str (PInt 7) \<noteq> []" "py_strip (py_str (PInt 7)) \<noteq> lit ''NULL''"
    by (simp_all add: str_int_def py_strip_def py_isspace_def lit_def)
  have g: "first_decoding (PInt 7) [UTF8, Latin1, ASCII] = None"
    by simp
  from null b f i g
    C5_decode [of "PStr (lit '' NULL '')"] C5_decode [of "PBytes [CHR 0xE9]"]
    C5_decode [of "PInt 7"]
  show ?thesis
    by simp
qed

section \<open>Claims on the spinner\<close>

lemma spindex_progress:
  "spindex (snd (Logger_progress e msg perc w))
     = (if spindex w = 9 then 0 else spindex w + 1)"
  by (simp add: Logger_progress_def Let_def spinner_frames_def split: sum.split)

lemma spindex_progress_mod:
  "0 \<le> spindex w \<Longrightarrow> spindex w \<le> 9 \<Longrightarrow>
   spindex (snd (Logger_progress e msg perc w)) = (spindex w + 1) mod 10"
  by (simp add: spindex_progress)

lemma spindex_progress_calls:
  "0 \<le> spindex w \<Longrightarrow> spindex w \<le> 9 \<Longrightarrow>
   spindex (progress_calls e calls w) = (spindex w + int (length calls)) mod 10"
proof (induction calls arbitrary: w)
  case Nil
  then show ?case by simp
next
  case (Cons c calls)
  obtain msg perc where c: "c = (msg, perc)"
    by (cases c)
  let ?w = "snd (Logger_progress e msg perc w)"
  from Cons.prems have s: "spindex ?w = (spindex w + 1) mod 10"
    by (rule spindex_progress_mod)
  then have "0 \<le> spindex ?w" "spindex ?w \<le> 9"
    by simp_all
  then have "spindex (progress_calls e calls ?w) = (spindex ?w + int (length calls)) mod 10"
    by (rule Cons.IH)
  with s c show ?case
    by (simp add: mod_add_left_eq add.assoc)
qed

text \<open>
  C7, as the claim states it, fails: the cycle has ten frames, so eleven calls leave the
  index one step past its starting value. From the index 0 of a new logger, eleven calls
  give 1.
\<close>

theorem C7_eleven_calls_counterexample:
  "spindex ex_world = 0
   \<and> spindex (progress_calls (ex_env None False) (replicate 11 (PStr [], 0)) ex_world) = 1"
proof -
  have z: "spindex ex_world = 0"
    by (simp add: ex_world_def)
  then have "spindex (progress_calls (ex_env None False) (replicate 11 (PStr [], 0)) ex_world)
      = (0 + int (length (replicate 11 (PStr [], 0::int)))) mod 10"
    using spindex_progress_calls [of ex_world "ex_env None False" "replicate 11 (PStr [], 0)"]
    by simp
  with z show ?thesis
    by simp
qed

text \<open>
  C7, amended. From a spinner index in the range 0 to 9, every progress call moves the
  index one step along the cycle 0, 1, ..., 9, 0 and leaves it in the range 0 to 9, whatever
  the call returns or raises; so any number of consecutive calls advances it by that number
  modulo ten, and ten consecutive calls return it to its starting value.
\<close>

theorem C7_spinner_cycle:
  assumes "0 \<le> spindex w" and "spindex w \<le> 9"
  shows "spindex (snd (Logger_progress e msg perc w)) = (spindex w + 1) mod 10
    \<and> 0 \<le> spindex (snd (Logger_progress e msg perc w))
    \<and> spindex (snd (Logger_progress e msg perc w)) \<le> 9
    \<and> spindex (progress_calls e calls w) = (spindex w + int (length calls)) mod 10
    \<and> (if length calls = 10 then spindex (progress_calls e calls w) = spindex w else True)"
proof -
  from assms have one: "spindex (snd (Logger_progress e msg perc w)) = (spindex w + 1) mod 10"
    by (rule spindex_progress_mod)
  from assms have many: "spindex (progress_calls e calls w)
      = (spindex w + int (length calls)) mod 10"
    by (rule spindex_progress_calls)
  from assms one many show ?thesis
    by simp
qed

theorem C7_spinner_cycle_witness:
  "0 \<le> spindex (ex_world\<lparr>spindex := 9\<rparr>)
   \<and> spindex (ex_world\<lparr>spindex := 9\<rparr>) \<le> 9
   \<and> spindex (snd (Logger_progress (ex_env None False) (PStr []) 0 (ex_world\<lparr>spindex := 9\<rparr>)))
       = 0
   \<and> spindex (progress_calls (ex_env None False) (replicate 10 (PStr [], 0))
                (ex_world\<lparr>spindex := 9\<rparr>)) = 9"
  using C7_spinner_cycle [of "ex_world\<lparr>spindex := 9\<rparr>" "ex_env None False" "PStr []" 0
    "replicate 10 (PStr [], 0)"]
  by simp

section \<open>Lemmas on doubles\<close>

declare bit_length.simps [simp del]



















section \<open>Claims on the progress bar\<close>







end
